theory Spec2Isabelle
  imports Main
begin

text \<open>
  A model of the job queue and worker code of the task-management API: the dispatcher
  \<^verbatim>\<open>TaskProcessorService.process\<close> with its two handlers, the hourly scanner
  \<^verbatim>\<open>OverdueTasksService.checkOverdueTasks\<close>, and the two methods of \<^verbatim>\<open>TasksService\<close> that
  they call. An \<^verbatim>\<open>async\<close> function is a function from the state before the call to an
  outcome and the state after it; the outcome is \<open>Inl\<close> of the thrown value when the
  function throws (its promise is rejected) and \<open>Inr\<close> of the returned value otherwise.
  Calls of the logger are left out: they return nothing, and on the values modelled here
  they do not throw.
\<close>

section \<open>JavaScript values\<close>

text \<open>
  Job payload fields, thrown values and promise rejection reasons are untyped in the
  source (\<^verbatim>\<open>any\<close>). They are modelled by the values the code can tell apart:
  \<^verbatim>\<open>undefined\<close>, \<^verbatim>\<open>null\<close>, booleans, integral numbers, strings and \<^verbatim>\<open>Error\<close>
  objects carrying a message.
\<close>

datatype jsval =
    JUndefined
  | JNull
  | JBool bool
  | JNum int
  | JStr string
  | JErr string

text \<open>Truthiness, as used by \<^verbatim>\<open>!x\<close> and \<^verbatim>\<open>x || y\<close>.\<close>

fun truthy :: "jsval \<Rightarrow> bool" where
  "truthy JUndefined = False"
| "truthy JNull = False"
| "truthy (JBool b) = b"
| "truthy (JNum n) = (n \<noteq> 0)"
| "truthy (JStr s) = (s \<noteq> [])"
| "truthy (JErr m) = True"

text \<open>Decimal digits of a natural number, for numbers inside template literals.\<close>

fun nat_str :: "nat \<Rightarrow> string" where
  "nat_str n =
     (if n < 10 then [''0123456789'' ! n]
      else nat_str (n div 10) @ [''0123456789'' ! (n mod 10)])"

declare nat_str.simps [simp del]

text \<open>String conversion of a value inside a template literal (\<^verbatim>\<open>`${v}`\<close>).\<close>

fun toStr :: "jsval \<Rightarrow> string" where
  "toStr JUndefined = ''undefined''"
| "toStr JNull = ''null''"
| "toStr (JBool b) = (if b then ''true'' else ''false'')"
| "toStr (JNum n) = (if n < 0 then ''-'' @ nat_str (nat (- n)) else nat_str (nat n))"
| "toStr (JStr s) = s"
| "toStr (JErr m) = (if m = [] then ''Error'' else ''Error: '' @ m)"

text \<open>\<^verbatim>\<open>v?.message\<close>: only \<^verbatim>\<open>Error\<close> objects have a message.\<close>

fun message_of :: "jsval \<Rightarrow> jsval" where
  "message_of (JErr m) = JStr m"
| "message_of v = JUndefined"

section \<open>Jobs, tasks and results\<close>

text \<open>\<^verbatim>\<open>job.data\<close>: an object whose properties \<^verbatim>\<open>taskId\<close> and \<^verbatim>\<open>status\<close> may be missing
  (\<^verbatim>\<open>undefined\<close>).\<close>

record payload =
  taskId :: jsval
  status :: jsval

record jobopts =
  attempts :: "int option"

text \<open>The fields of a BullMQ \<^verbatim>\<open>Job\<close> that \<^verbatim>\<open>process\<close> reads. \<^verbatim>\<open>data\<close> is \<open>None\<close> when
  \<^verbatim>\<open>job.data\<close> is \<^verbatim>\<open>null\<close> or \<^verbatim>\<open>undefined\<close>. \<^verbatim>\<open>attemptsMade\<close> and \<^verbatim>\<open>opts\<close> may be absent
  (\<^verbatim>\<open>??\<close> and \<^verbatim>\<open>?.\<close> in the source). \<^verbatim>\<open>attemptsMade\<close> is a counter kept by the store,
  hence a natural number; \<^verbatim>\<open>opts.attempts\<close> is whatever number the producer passed.\<close>

record job =
  name :: string
  data :: "payload option"
  attemptsMade :: "nat option"
  opts :: "jobopts option"

text \<open>A task as the handlers read it: the properties \<^verbatim>\<open>id\<close> and \<^verbatim>\<open>status\<close>, either of
  which is \<^verbatim>\<open>undefined\<close> on an object that does not have it.\<close>

record taskrow =
  task_id :: jsval
  task_status :: jsval

text \<open>The object a handler returns; a property that the object does not have is \<open>None\<close>.
  \<^verbatim>\<open>res_taskId\<close> and \<^verbatim>\<open>newStatus\<close> hold the \<^verbatim>\<open>affected\<close> count of the object that
  \<^verbatim>\<open>updateStatus\<close> returned.\<close>

record result =
  success :: bool
  error :: "jsval option"
  detail :: "jsval option"
  res_taskId :: "int option"
  newStatus :: "int option"
  processed :: "nat option"
  failed :: "nat option"
  message :: "string option"

definition failure :: "jsval \<Rightarrow> result" where
  "failure e =
     \<lparr>success = False, error = Some e, detail = None, res_taskId = None, newStatus = None,
      processed = None, failed = None, message = None\<rparr>"

section \<open>External collaborators\<close>

text \<open>Modelled from the spec: the enumeration \<^verbatim>\<open>TaskStatus\<close>, whose declaration is not
  among the sources; the spec lists its members.\<close>

datatype TaskStatus = PENDING | IN_PROGRESS | COMPLETED | CANCELLED

text \<open>The \<^verbatim>\<open>where\<close> argument of \<^verbatim>\<open>findOverdueTasks\<close>: \<^verbatim>\<open>{}\<close>, or
  \<^verbatim>\<open>{ dueDate: LessThan(now), status }\<close>, the time \<^verbatim>\<open>now\<close> in milliseconds.\<close>

datatype whereClause =
    WhereAny
  | WhereDueBefore int TaskStatus

record findOptions =
  fo_where :: whereClause
  fo_select :: "string list"

text \<open>What a call of \<^verbatim>\<open>Queue.add\<close> does: it throws synchronously, or it returns a
  promise, which is later fulfilled or rejected with a reason.\<close>

datatype settled =
    Fulfilled
  | Rejected jsval

datatype addOutcome =
    Throws jsval
  | Returns settled

text \<open>
  The TypeORM repository and the BullMQ queue are outside the repository. Each is a
  function of the state \<open>'w\<close> of the outside world that returns an outcome and the next
  state, so that a collaborator may fail on one call and succeed on the next.
  \<^item> \<open>repo_find\<close>: the query behind \<^verbatim>\<open>tasksRepository.find(options)\<close>, throwing
    (\<open>Inl\<close>) or returning the tasks that match;
  \<^item> \<open>repo_update\<close>: the transaction around the update query of \<^verbatim>\<open>updateStatus\<close>,
    throwing or returning \<^verbatim>\<open>result.affected\<close>, which may be \<^verbatim>\<open>undefined\<close>;
  \<^item> \<open>queue_add\<close>: \<^verbatim>\<open>taskQueue.add(name, data, opts)\<close>.
\<close>

record 'w collab =
  repo_find :: "findOptions \<Rightarrow> 'w \<Rightarrow> (jsval + taskrow list) \<times> 'w"
  repo_update :: "jsval list \<Rightarrow> jsval \<Rightarrow> 'w \<Rightarrow> (jsval + int option) \<times> 'w"
  queue_add :: "string \<Rightarrow> payload \<Rightarrow> jobopts option \<Rightarrow> 'w \<Rightarrow> addOutcome \<times> 'w"

text \<open>The calls made to the collaborators, in order.\<close>

datatype event =
    Find findOptions
  | Update "jsval list" jsval
  | Add string payload "jobopts option"

record 'w state =
  world :: 'w
  calls :: "event list"

section \<open>TasksService\<close>

text \<open>\<^verbatim>\<open>tasksRepository.find(options)\<close> loads only the columns named by \<^verbatim>\<open>select\<close>;
  accordingly \<^verbatim>\<open>findOverdueTasks\<close>, which selects \<^verbatim>\<open>status\<close>, declares its result as
  \<^verbatim>\<open>Array<{ status: TaskStatus }>\<close>. A column that is not loaded reads \<^verbatim>\<open>undefined\<close>.\<close>

definition select_columns :: "string list \<Rightarrow> taskrow \<Rightarrow> taskrow" where
  "select_columns cols t =
     \<lparr>task_id = (if ''id'' \<in> set cols then task_id t else JUndefined),
      task_status = (if ''status'' \<in> set cols then task_status t else JUndefined)\<rparr>"

definition tasksRepository_find ::
  "'w collab \<Rightarrow> findOptions \<Rightarrow> 'w \<Rightarrow> (jsval + taskrow list) \<times> 'w" where
  "tasksRepository_find c fo w =
     (case repo_find c fo w of
        (Inl err, w') \<Rightarrow> (Inl err, w')
      | (Inr tasks, w') \<Rightarrow> (Inr (map (select_columns (fo_select fo)) tasks), w'))"

text \<open>\<^verbatim>\<open>findOverdueTasks(where)\<close>: \<^verbatim>\<open>find({ where, select: ['status'] })\<close>.\<close>

definition findOverdueTasks ::
  "'w collab \<Rightarrow> whereClause \<Rightarrow> 'w state \<Rightarrow> (jsval + taskrow list) \<times> 'w state" where
  "findOverdueTasks c wh s =
     (let fo = \<lparr>fo_where = wh, fo_select = [''status'']\<rparr>;
          (r, w') = tasksRepository_find c fo (world s)
      in (r, \<lparr>world = w', calls = calls s @ [Find fo]\<rparr>))"

text \<open>\<^verbatim>\<open>updateStatus(id, status)\<close>: a single id is normalised to a one-element list;
  the result is \<^verbatim>\<open>{ affected: result.affected ?? 0 }\<close>.\<close>

definition updateStatus ::
  "'w collab \<Rightarrow> jsval \<Rightarrow> jsval \<Rightarrow> 'w state \<Rightarrow> (jsval + int) \<times> 'w state" where
  "updateStatus c i st s =
     (let ids = [i];
          (r, w') = repo_update c ids st (world s);
          s' = \<lparr>world = w', calls = calls s @ [Update ids st]\<rparr>
      in case r of
           Inl e \<Rightarrow> (Inl e, s')
         | Inr a \<Rightarrow> (Inr (case a of None \<Rightarrow> 0 | Some n \<Rightarrow> n), s'))"

section \<open>TaskProcessorService: the status-update handler\<close>

definition MAX_ATTEMPTS :: nat where
  "MAX_ATTEMPTS = 3"

definition VALID_STATUSES :: "string list" where
  "VALID_STATUSES = [''PENDING'', ''IN_PROGRESS'', ''COMPLETED'', ''CANCELLED'']"

text \<open>\<^verbatim>\<open>VALID_STATUSES.includes(status)\<close>: only a string equals a string.\<close>

fun includes_status :: "jsval \<Rightarrow> bool" where
  "includes_status (JStr s) = (s \<in> set VALID_STATUSES)"
| "includes_status v = False"

text \<open>The \<^verbatim>\<open>while (attempt < MAX_ATTEMPTS)\<close> loop of \<^verbatim>\<open>handleStatusUpdate\<close>, with its
  variables \<^verbatim>\<open>attempt\<close> and \<^verbatim>\<open>lastError\<close>. A successful call returns from inside the
  loop; a throwing call is caught and the loop goes on.\<close>

function retryLoop ::
  "'w collab \<Rightarrow> jsval \<Rightarrow> jsval \<Rightarrow> nat \<Rightarrow> jsval \<Rightarrow> 'w state \<Rightarrow> result \<times> 'w state" where
  "retryLoop c tid st attempt lastError s =
     (if attempt < MAX_ATTEMPTS then
        (case updateStatus c tid st s of
           (Inr updatedTask, s') \<Rightarrow>
             (\<lparr>success = True, error = None, detail = None,
               res_taskId = Some updatedTask, newStatus = Some updatedTask,
               processed = None, failed = None, message = None\<rparr>, s')
         | (Inl err, s') \<Rightarrow> retryLoop c tid st (attempt + 1) err s')
      else
        (\<lparr>success = False,
          error = Some (JStr (''Failed to update task status after ''
                               @ nat_str MAX_ATTEMPTS @ '' attempts'')),
          detail = Some (message_of lastError),
          res_taskId = None, newStatus = None,
          processed = None, failed = None, message = None\<rparr>, s))"
  by pat_completeness auto
termination
  by (relation "measure (\<lambda>(c, tid, st, attempt, lastError, s). MAX_ATTEMPTS - attempt)") auto

declare retryLoop.simps [simp del]

text \<open>The \<^verbatim>\<open>TypeError\<close> that \<^verbatim>\<open>const { taskId, status } = job.data\<close> throws when
  \<^verbatim>\<open>job.data\<close> is \<^verbatim>\<open>null\<close> or \<^verbatim>\<open>undefined\<close>; the wording of its message is the engine's.\<close>

definition destructure_error :: jsval where
  "destructure_error = JErr ''Cannot destructure property taskId of job.data''"

text \<open>\<^verbatim>\<open>handleStatusUpdate(job)\<close>. The function is \<^verbatim>\<open>async\<close>: \<open>Inl\<close> is a rejection with
  the thrown value, \<open>Inr\<close> the returned object. The destructuring of \<^verbatim>\<open>job.data\<close> stands
  outside every \<^verbatim>\<open>try\<close> block.\<close>

definition handleStatusUpdate ::
  "'w collab \<Rightarrow> job \<Rightarrow> 'w state \<Rightarrow> (jsval + result) \<times> 'w state" where
  "handleStatusUpdate c j s =
     (case data j of
        None \<Rightarrow> (Inl destructure_error, s)
      | Some d \<Rightarrow>
          (let tid = taskId d; st = status d in
           if \<not> truthy tid \<or> \<not> truthy st then
             (Inr (failure (JStr ''Missing required data'')), s)
           else if \<not> includes_status st then
             (Inr (failure (JStr (''Invalid status value: '' @ toStr st))), s)
           else
             (case retryLoop c tid st 0 JNull s of (r, s') \<Rightarrow> (Inr r, s'))))"

section \<open>The queue\<close>

text \<open>\<^verbatim>\<open>this.taskQueue.add(name, data, opts)\<close>, recorded in the list of calls.\<close>

definition taskQueue_add ::
  "'w collab \<Rightarrow> string \<Rightarrow> payload \<Rightarrow> jobopts option \<Rightarrow> 'w state \<Rightarrow> addOutcome \<times> 'w state" where
  "taskQueue_add c nm p ops s =
     (let (r, w') = queue_add c nm p ops (world s)
      in (r, \<lparr>world = w', calls = calls s @ [Add nm p ops]\<rparr>))"

section \<open>TaskProcessorService: the overdue-notification handler\<close>

definition CHUNK_SIZE :: nat where
  "CHUNK_SIZE = 50"

text \<open>\<^verbatim>\<open>chunk.map(task => { this.taskQueue.add('task-status-update', {...}) })\<close>: the
  callback calls \<^verbatim>\<open>add\<close> with two arguments and drops the promise it returns; a
  synchronous throw leaves \<^verbatim>\<open>map\<close> at once.\<close>

fun enqueueChunk ::
  "'w collab \<Rightarrow> taskrow list \<Rightarrow> 'w state \<Rightarrow> (jsval + unit) \<times> 'w state" where
  "enqueueChunk c [] s = (Inr (), s)"
| "enqueueChunk c (task # rest) s =
     (case taskQueue_add c ''task-status-update''
             \<lparr>taskId = task_id task, status = task_status task\<rparr> None s of
        (Throws err, s') \<Rightarrow> (Inl err, s')
      | (Returns p, s') \<Rightarrow> enqueueChunk c rest s')"

text \<open>The \<^verbatim>\<open>for (let i = 0; i < overdueTasks.length; i += CHUNK_SIZE)\<close> loop with its
  counters; \<^verbatim>\<open>slice(i, i + CHUNK_SIZE)\<close> is \<open>take CHUNK_SIZE (drop i overdueTasks)\<close>.\<close>

function chunkLoop ::
  "'w collab \<Rightarrow> taskrow list \<Rightarrow> nat \<Rightarrow> nat \<Rightarrow> nat \<Rightarrow> 'w state \<Rightarrow> nat \<times> nat \<times> 'w state" where
  "chunkLoop c overdueTasks i successCount failureCount s =
     (if i < length overdueTasks then
        (let chunk = take CHUNK_SIZE (drop i overdueTasks) in
         case enqueueChunk c chunk s of
           (Inr u, s') \<Rightarrow>
             chunkLoop c overdueTasks (i + CHUNK_SIZE)
               (successCount + length chunk) failureCount s'
         | (Inl err, s') \<Rightarrow>
             chunkLoop c overdueTasks (i + CHUNK_SIZE)
               successCount (failureCount + length chunk) s')
      else (successCount, failureCount, s))"
  by pat_completeness auto
termination
  by (relation "measure (\<lambda>(c, ts, i, sc, fc, s). length ts - i)")
     (auto simp: CHUNK_SIZE_def)

declare chunkLoop.simps [simp del]

text \<open>\<^verbatim>\<open>handleOverdueTasks(job)\<close>: the outer \<^verbatim>\<open>catch\<close> rethrows, so a failing query
  rejects with the query's error.\<close>

definition handleOverdueTasks ::
  "'w collab \<Rightarrow> job \<Rightarrow> 'w state \<Rightarrow> (jsval + result) \<times> 'w state" where
  "handleOverdueTasks c j s =
     (case findOverdueTasks c WhereAny s of
        (Inl err, s') \<Rightarrow> (Inl err, s')
      | (Inr overdueTasks, s') \<Rightarrow>
          if length overdueTasks = 0 then
            (Inr \<lparr>success = True, error = None, detail = None, res_taskId = None,
                  newStatus = None, processed = Some 0, failed = None, message = None\<rparr>, s')
          else
            (case chunkLoop c overdueTasks 0 0 0 s' of
               (successCount, failureCount, s'') \<Rightarrow>
                 (Inr \<lparr>success = True, error = None, detail = None, res_taskId = None,
                       newStatus = None, processed = Some successCount,
                       failed = Some failureCount,
                       message = Some ''Overdue tasks have been queued for processing''\<rparr>,
                  s'')))"

section \<open>TaskProcessorService: the dispatcher\<close>

text \<open>The \<^verbatim>\<open>switch (job.name)\<close> inside the \<^verbatim>\<open>try\<close> block of \<^verbatim>\<open>process\<close>.\<close>

definition dispatch ::
  "'w collab \<Rightarrow> job \<Rightarrow> 'w state \<Rightarrow> (jsval + result) \<times> 'w state" where
  "dispatch c j s =
     (if name j = ''task-status-update'' then handleStatusUpdate c j s
      else if name j = ''overdue-tasks-notification'' then handleOverdueTasks c j s
      else (Inr (failure (JStr ''Unknown job type'')), s))"

text \<open>\<^verbatim>\<open>const attempts = job.attemptsMade ?? 0\<close>\<close>

definition job_attempts :: "job \<Rightarrow> int" where
  "job_attempts j = (case attemptsMade j of None \<Rightarrow> 0 | Some n \<Rightarrow> int n)"

text \<open>\<^verbatim>\<open>const maxAttempts = job.opts?.attempts ?? 1\<close>\<close>

definition job_maxAttempts :: "job \<Rightarrow> int" where
  "job_maxAttempts j =
     (case opts j of
        None \<Rightarrow> 1
      | Some ops \<Rightarrow> (case attempts ops of None \<Rightarrow> 1 | Some n \<Rightarrow> n))"

text \<open>Modelled from the spec: the attempt count of a job, which the store (not among the
  sources) increments when it hands the job to the dispatcher. While \<^verbatim>\<open>process\<close> runs it
  counts the attempt in progress as well; \<^verbatim>\<open>attemptsMade\<close> counts the attempts before it.\<close>

definition attemptCount :: "job \<Rightarrow> int" where
  "attemptCount j = job_attempts j + 1"

text \<open>\<^verbatim>\<open>process(job)\<close>: the \<^verbatim>\<open>catch\<close> block rethrows while
  \<^verbatim>\<open>attempts < maxAttempts - 1\<close> and returns
  \<^verbatim>\<open>{ success: false, error: error || 'Job failed permanently' }\<close> otherwise.\<close>

definition process ::
  "'w collab \<Rightarrow> job \<Rightarrow> 'w state \<Rightarrow> (jsval + result) \<times> 'w state" where
  "process c j s =
     (case dispatch c j s of
        (Inr r, s') \<Rightarrow> (Inr r, s')
      | (Inl err, s') \<Rightarrow>
          if job_attempts j < job_maxAttempts j - 1 then (Inl err, s')
          else (Inr (failure (if truthy err then err else JStr ''Job failed permanently'')),
                s'))"

section \<open>OverdueTasksService: the scanner\<close>

datatype respData =
    EmptyList
  | Counts nat nat

record response =
  resp_status :: nat
  resp_success :: bool
  resp_data :: respData
  resp_message :: string

text \<open>\<^verbatim>\<open>formatResponse(success, data, message)\<close>, with \<^verbatim>\<open>data ?? []\<close>.\<close>

definition formatResponse :: "bool \<Rightarrow> respData option \<Rightarrow> string \<Rightarrow> response" where
  "formatResponse ok d msg =
     \<lparr>resp_status = (if ok then 200 else 500), resp_success = ok,
      resp_data = (case d of None \<Rightarrow> EmptyList | Some x \<Rightarrow> x), resp_message = msg\<rparr>"

text \<open>\<^verbatim>\<open>overdueTasks.map(task => this.taskQueue.add('overdue-tasks-notification',
  { taskId: task.id }))\<close>: the promises of the calls, unless a call throws.\<close>

fun enqueueAll ::
  "'w collab \<Rightarrow> taskrow list \<Rightarrow> 'w state \<Rightarrow> (jsval + settled list) \<times> 'w state" where
  "enqueueAll c [] s = (Inr [], s)"
| "enqueueAll c (task # rest) s =
     (case taskQueue_add c ''overdue-tasks-notification''
             \<lparr>taskId = task_id task, status = JUndefined\<rparr> None s of
        (Throws err, s') \<Rightarrow> (Inl err, s')
      | (Returns p, s') \<Rightarrow>
          (case enqueueAll c rest s' of
             (Inl err, s'') \<Rightarrow> (Inl err, s'')
           | (Inr ps, s'') \<Rightarrow> (Inr (p # ps), s'')))"

text \<open>\<^verbatim>\<open>results.forEach(...)\<close> over the settled promises, with the two counters.\<close>

fun tally :: "settled list \<Rightarrow> nat \<Rightarrow> nat \<Rightarrow> nat \<times> nat" where
  "tally [] successCount failCount = (successCount, failCount)"
| "tally (Fulfilled # rs) successCount failCount = tally rs (successCount + 1) failCount"
| "tally (Rejected reason # rs) successCount failCount = tally rs successCount (failCount + 1)"

text \<open>The \<^verbatim>\<open>try\<close> block of \<^verbatim>\<open>checkOverdueTasks\<close>; \<open>now\<close> is \<^verbatim>\<open>new Date()\<close>.\<close>

definition checkOverdueTasks_try ::
  "'w collab \<Rightarrow> int \<Rightarrow> 'w state \<Rightarrow> (jsval + response) \<times> 'w state" where
  "checkOverdueTasks_try c now s =
     (case findOverdueTasks c (WhereDueBefore now PENDING) s of
        (Inl err, s') \<Rightarrow> (Inl err, s')
      | (Inr overdueTasks, s') \<Rightarrow>
          if length overdueTasks = 0 then
            (Inr (formatResponse True (Some EmptyList) ''No overdue tasks found''), s')
          else
            (case enqueueAll c overdueTasks s' of
               (Inl err, s'') \<Rightarrow> (Inl err, s'')
             | (Inr results, s'') \<Rightarrow>
                 (case tally results 0 0 of
                    (successCount, failCount) \<Rightarrow>
                      (Inr (formatResponse True (Some (Counts successCount failCount))
                              ''Overdue tasks check completed''), s''))))"

text \<open>\<^verbatim>\<open>checkOverdueTasks()\<close>: the \<^verbatim>\<open>catch\<close> block turns any error of the \<^verbatim>\<open>try\<close>
  block into a response.\<close>

definition checkOverdueTasks ::
  "'w collab \<Rightarrow> int \<Rightarrow> 'w state \<Rightarrow> (jsval + response) \<times> 'w state" where
  "checkOverdueTasks c now s =
     (case checkOverdueTasks_try c now s of
        (Inr r, s') \<Rightarrow> (Inr r, s')
      | (Inl err, s') \<Rightarrow>
          (Inr (formatResponse False (Some EmptyList) ''Error checking overdue tasks''), s'))"

section \<open>Notions used to state the properties\<close>

text \<open>The queue's \<^verbatim>\<open>add\<close> is an \<^verbatim>\<open>async\<close> method when no call of it throws
  synchronously: every call returns a promise.\<close>

definition async_add :: "'w collab \<Rightarrow> bool" where
  "async_add c = (\<forall>nm p ops w e. fst (queue_add c nm p ops w) \<noteq> Throws e)"

text \<open>The call that enqueues the child job of a task, and the call that enqueues the
  notification job of a task.\<close>

definition childJob :: "taskrow \<Rightarrow> event" where
  "childJob task =
     Add ''task-status-update'' \<lparr>taskId = task_id task, status = task_status task\<rparr> None"

definition notificationJob :: "taskrow \<Rightarrow> event" where
  "notificationJob task =
     Add ''overdue-tasks-notification'' \<lparr>taskId = task_id task, status = JUndefined\<rparr> None"

definition child_jobs_only :: "event list \<Rightarrow> bool" where
  "child_jobs_only es = (\<forall>e \<in> set es. \<exists>t. e = childJob t)"

text \<open>The slices that the loop of \<^verbatim>\<open>handleOverdueTasks\<close> takes from index \<open>i\<close> on, and
  the body of the loop as a step on its two counters.\<close>

function slices :: "'a list \<Rightarrow> nat \<Rightarrow> 'a list list" where
  "slices xs i =
     (if i < length xs then take CHUNK_SIZE (drop i xs) # slices xs (i + CHUNK_SIZE) else [])"
  by pat_completeness auto
termination
  by (relation "measure (\<lambda>(xs, i). length xs - i)") (auto simp: CHUNK_SIZE_def)

declare slices.simps [simp del]

fun chunkStep ::
  "'w collab \<Rightarrow> nat \<times> nat \<times> 'w state \<Rightarrow> taskrow list \<Rightarrow> nat \<times> nat \<times> 'w state" where
  "chunkStep c (successCount, failureCount, s) chunk =
     (case enqueueChunk c chunk s of
        (Inr u, s') \<Rightarrow> (successCount + length chunk, failureCount, s')
      | (Inl err, s') \<Rightarrow> (successCount, failureCount + length chunk, s'))"

section \<open>A scripted collaborator and example inputs\<close>

text \<open>A collaborator that replays outcomes from lists, one per call; its \<^verbatim>\<open>add\<close>
  always returns a promise. An exhausted list answers with success.\<close>

record script =
  find_results :: "(jsval + taskrow list) list"
  update_results :: "(jsval + int option) list"
  add_results :: "settled list"

definition scripted :: "script collab" where
  "scripted =
     \<lparr>repo_find = (\<lambda>fo w. case find_results w of
                               [] \<Rightarrow> (Inr [], w)
                             | r # rs \<Rightarrow> (r, w\<lparr>find_results := rs\<rparr>)),
      repo_update = (\<lambda>ids st w. case update_results w of
                                   [] \<Rightarrow> (Inr (Some 1), w)
                                 | r # rs \<Rightarrow> (r, w\<lparr>update_results := rs\<rparr>)),
      queue_add = (\<lambda>nm p ops w. case add_results w of
                                   [] \<Rightarrow> (Returns Fulfilled, w)
                                 | r # rs \<Rightarrow> (Returns r, w\<lparr>add_results := rs\<rparr>))\<rparr>"

definition start :: "script \<Rightarrow> script state" where
  "start w = \<lparr>world = w, calls = []\<rparr>"

definition finished :: "event list \<Rightarrow> script state" where
  "finished es = \<lparr>world = \<lparr>find_results = [], update_results = [], add_results = []\<rparr>,
              calls = es\<rparr>"

definition notification_job :: "nat \<Rightarrow> int \<Rightarrow> job" where
  "notification_job made mx =
     \<lparr>name = ''overdue-tasks-notification'',
      data = Some \<lparr>taskId = JStr ''t1'', status = JUndefined\<rparr>,
      attemptsMade = Some made, opts = Some \<lparr>attempts = Some mx\<rparr>\<rparr>"

definition default_notification_job :: job where
  "default_notification_job =
     \<lparr>name = ''overdue-tasks-notification'',
      data = Some \<lparr>taskId = JStr ''t1'', status = JUndefined\<rparr>,
      attemptsMade = Some 0, opts = None\<rparr>"

definition unknown_job :: job where
  "unknown_job =
     \<lparr>name = ''send-email'',
      data = Some \<lparr>taskId = JStr ''t1'', status = JStr ''PENDING''\<rparr>,
      attemptsMade = Some 0, opts = Some \<lparr>attempts = Some 3\<rparr>\<rparr>"

definition status_job :: "jsval \<Rightarrow> jsval \<Rightarrow> job" where
  "status_job tid st =
     \<lparr>name = ''task-status-update'', data = Some \<lparr>taskId = tid, status = st\<rparr>,
      attemptsMade = Some 0, opts = None\<rparr>"


definition query_down :: "script state" where
  "query_down =
     start \<lparr>find_results = [Inl (JErr ''db down'')], update_results = [], add_results = []\<rparr>"

text \<open>Tasks of the table, and the objects that a query selecting \<^verbatim>\<open>status\<close> makes of
  them.\<close>

definition status_only :: "taskrow list \<Rightarrow> taskrow list" where
  "status_only ts = map (select_columns [''status'']) ts"

definition two_tasks :: "taskrow list" where
  "two_tasks = [\<lparr>task_id = JStr ''t1'', task_status = JStr ''PENDING''\<rparr>,
                \<lparr>task_id = JStr ''t2'', task_status = JStr ''IN_PROGRESS''\<rparr>]"

definition two_overdue :: "script state" where
  "two_overdue = start \<lparr>find_results = [Inr two_tasks], update_results = [], add_results = []\<rparr>"

definition one_overdue_rejecting :: "script state" where
  "one_overdue_rejecting =
     start \<lparr>find_results = [Inr [\<lparr>task_id = JStr ''t1'', task_status = JStr ''PENDING''\<rparr>]],
            update_results = [], add_results = [Rejected (JErr ''redis down'')]\<rparr>"

definition three_tasks :: "taskrow list" where
  "three_tasks = [\<lparr>task_id = JNum 1, task_status = JStr ''PENDING''\<rparr>,
                  \<lparr>task_id = JNum 2, task_status = JStr ''PENDING''\<rparr>,
                  \<lparr>task_id = JNum 3, task_status = JStr ''PENDING''\<rparr>]"

definition three_overdue_one_rejected :: "script state" where
  "three_overdue_one_rejected =
     start \<lparr>find_results = [Inr three_tasks], update_results = [],
            add_results = [Fulfilled, Rejected (JErr ''redis down''), Fulfilled]\<rparr>"



section \<open>Auxiliary lemmas\<close>

subsection \<open>The calls each operation records\<close>

lemma findOverdueTasks_calls:
  "calls (snd (findOverdueTasks c wh s)) =
     calls s @ [Find \<lparr>fo_where = wh, fo_select = [''status'']\<rparr>]"
  by (simp add: findOverdueTasks_def Let_def split: prod.splits)

text \<open>No task that \<^verbatim>\<open>findOverdueTasks\<close> returns has an \<^verbatim>\<open>id\<close>.\<close>

lemma findOverdueTasks_no_id:
  assumes "findOverdueTasks c wh s = (Inr tasks, s1)"
  shows "\<forall>t \<in> set tasks. task_id t = JUndefined"
proof -
  obtain r w' where f: "repo_find c \<lparr>fo_where = wh, fo_select = [''status'']\<rparr> (world s) = (r, w')"
    by (cases "repo_find c \<lparr>fo_where = wh, fo_select = [''status'']\<rparr> (world s)")
  show ?thesis
  proof (cases r)
    case (Inl err)
    with f assms show ?thesis
      by (simp add: findOverdueTasks_def tasksRepository_find_def)
  next
    case (Inr ts)
    with f assms have "tasks = map (select_columns [''status'']) ts"
      by (simp add: findOverdueTasks_def tasksRepository_find_def)
    then show ?thesis by (simp add: select_columns_def)
  qed
qed


lemma taskQueue_add_calls:
  "calls (snd (taskQueue_add c nm p ops s)) = calls s @ [Add nm p ops]"
  by (simp add: taskQueue_add_def split: prod.splits)

lemma taskQueue_add_async:
  assumes "async_add c"
  shows "\<exists>p s'. taskQueue_add c nm pl ops s = (Returns p, s')
           \<and> calls s' = calls s @ [Add nm pl ops]"
proof -
  obtain r w' where q: "queue_add c nm pl ops (world s) = (r, w')"
    by (cases "queue_add c nm pl ops (world s)")
  with assms have "\<forall>e. r \<noteq> Throws e"
    unfolding async_add_def by (metis fst_conv)
  then obtain p where "r = Returns p" by (cases r) auto
  with q show ?thesis by (simp add: taskQueue_add_def)
qed

subsection \<open>The status-update handler\<close>





subsection \<open>The chunk loop\<close>

lemma chunkLoop_done:
  "length ts \<le> i \<Longrightarrow> chunkLoop c ts i sc fc s = (sc, fc, s)"
  by (simp add: chunkLoop.simps[of _ _ i])

lemma enqueueChunk_async:
  assumes "async_add c"
  shows "\<exists>s'. enqueueChunk c ts s = (Inr (), s') \<and> calls s' = calls s @ map childJob ts"
proof (induction ts arbitrary: s)
  case Nil
  show ?case by simp
next
  case (Cons t ts)
  from taskQueue_add_async[OF assms]
  obtain p s1 where
    a: "taskQueue_add c ''task-status-update''
          \<lparr>taskId = task_id t, status = task_status t\<rparr> None s = (Returns p, s1)"
    and c1: "calls s1 = calls s @ [childJob t]"
    unfolding childJob_def by blast
  from Cons.IH[of s1] obtain s2 where b: "enqueueChunk c ts s1 = (Inr (), s2)"
    and c2: "calls s2 = calls s1 @ map childJob ts" by blast
  show ?case using a b c1 c2 by simp
qed

lemma chunkLoop_async:
  assumes "async_add c"
  shows "\<exists>s'. chunkLoop c ts i sc fc s = (sc + (length ts - i), fc, s')
           \<and> calls s' = calls s @ map childJob (drop i ts)"
  using assms
proof (induction c ts i sc fc s rule: chunkLoop.induct)
  case (1 c ts i sc fc s)
  show ?case
  proof (cases "i < length ts")
    case False
    then show ?thesis by (simp add: chunkLoop.simps[of _ _ i])
  next
    case True
    define chunk where "chunk = take CHUNK_SIZE (drop i ts)"
    from enqueueChunk_async[OF "1.prems"] obtain s1 where
      e: "enqueueChunk c chunk s = (Inr (), s1)"
      and c1: "calls s1 = calls s @ map childJob chunk"
      by blast
    from "1.IH"(2)[OF True chunk_def e[symmetric] refl "1.prems"]
    obtain s2 where
      l: "chunkLoop c ts (i + CHUNK_SIZE) (sc + length chunk) fc s1
            = (sc + length chunk + (length ts - (i + CHUNK_SIZE)), fc, s2)"
      and c2: "calls s2 = calls s1 @ map childJob (drop (i + CHUNK_SIZE) ts)"
      by blast
    have len: "length chunk + (length ts - (i + CHUNK_SIZE)) = length ts - i"
      using True by (simp add: chunk_def min_def)
    have "chunk @ drop (i + CHUNK_SIZE) ts = drop i ts"
      unfolding chunk_def by (metis add.commute append_take_drop_id drop_drop)
    then have app:
      "map childJob chunk @ map childJob (drop (i + CHUNK_SIZE) ts) = map childJob (drop i ts)"
      by (metis map_append)
    have "chunkLoop c ts i sc fc s = (sc + (length ts - i), fc, s2)"
      using True e l len
      by (simp add: chunkLoop.simps[of _ _ i] chunk_def[symmetric] Let_def add.assoc)
    moreover have "calls s2 = calls s @ map childJob (drop i ts)"
      using c1 c2 app by simp
    ultimately show ?thesis by blast
  qed
qed

lemma enqueueChunk_calls:
  "\<exists>k. calls (snd (enqueueChunk c ts s)) = calls s @ map childJob (take k ts)"
proof (induction ts arbitrary: s)
  case Nil
  show ?case by simp
next
  case (Cons t ts)
  obtain r s1 where
    a: "taskQueue_add c ''task-status-update''
          \<lparr>taskId = task_id t, status = task_status t\<rparr> None s = (r, s1)"
    by (cases "taskQueue_add c ''task-status-update''
                 \<lparr>taskId = task_id t, status = task_status t\<rparr> None s")
  have c1: "calls s1 = calls s @ [childJob t]"
    using taskQueue_add_calls[of c "''task-status-update''"
            "\<lparr>taskId = task_id t, status = task_status t\<rparr>" None s] a
    by (simp add: childJob_def)
  show ?case
  proof (cases r)
    case (Throws e)
    then have "calls (snd (enqueueChunk c (t # ts) s)) =
                 calls s @ map childJob (take 1 (t # ts))"
      using a c1 by simp
    then show ?thesis by blast
  next
    case (Returns p)
    from Cons.IH[of s1] obtain k where
      "calls (snd (enqueueChunk c ts s1)) = calls s1 @ map childJob (take k ts)"
      by blast
    then have "calls (snd (enqueueChunk c (t # ts) s)) =
                 calls s @ map childJob (take (Suc k) (t # ts))"
      using a c1 Returns by simp
    then show ?thesis by blast
  qed
qed

lemma chunkLoop_calls:
  "\<exists>es. calls (snd (snd (chunkLoop c ts i sc fc s))) = calls s @ es \<and> child_jobs_only es"
proof (induction c ts i sc fc s rule: chunkLoop.induct)
  case (1 c ts i sc fc s)
  show ?case
  proof (cases "i < length ts")
    case False
    then show ?thesis by (simp add: chunkLoop.simps[of _ _ i] child_jobs_only_def)
  next
    case True
    define chunk where "chunk = take CHUNK_SIZE (drop i ts)"
    obtain r s1 where e: "enqueueChunk c chunk s = (r, s1)"
      by (cases "enqueueChunk c chunk s")
    from enqueueChunk_calls[of c chunk s] e obtain k where
      c1: "calls s1 = calls s @ map childJob (take k chunk)" by auto
    have "\<exists>es. calls (snd (snd (chunkLoop c ts i sc fc s))) = calls s1 @ es
               \<and> child_jobs_only es"
    proof (cases r)
      case (Inl err)
      from "1.IH"(1)[OF True chunk_def e[symmetric] Inl]
      show ?thesis using True e Inl
        by (simp add: chunkLoop.simps[of _ _ i] chunk_def[symmetric] Let_def)
    next
      case (Inr u)
      from "1.IH"(2)[OF True chunk_def e[symmetric] Inr]
      show ?thesis using True e Inr
        by (simp add: chunkLoop.simps[of _ _ i] chunk_def[symmetric] Let_def)
    qed
    then obtain es where
      es: "calls (snd (snd (chunkLoop c ts i sc fc s))) = calls s1 @ es"
          "child_jobs_only es" by blast
    have "calls (snd (snd (chunkLoop c ts i sc fc s))) =
            calls s @ (map childJob (take k chunk) @ es)"
      using es(1) c1 by simp
    moreover have "child_jobs_only (map childJob (take k chunk) @ es)"
      using es(2) by (auto simp: child_jobs_only_def)
    ultimately show ?thesis by blast
  qed
qed

text \<open>The loop is a left fold of its body over the slices; there are \<open>\<lceil>N / 50\<rceil>\<close> of
  them, they partition the list, and 120 tasks give slices of 50, 50 and 20.\<close>

lemma chunkLoop_slices:
  "chunkLoop c ts i sc fc s = foldl (chunkStep c) (sc, fc, s) (slices ts i)"
proof (induction c ts i sc fc s rule: chunkLoop.induct)
  case (1 c ts i sc fc s)
  show ?case
  proof (cases "i < length ts")
    case False
    then show ?thesis by (simp add: chunkLoop.simps[of _ _ i] slices.simps[of _ i])
  next
    case True
    obtain r s1 where e: "enqueueChunk c (take CHUNK_SIZE (drop i ts)) s = (r, s1)"
      by (cases "enqueueChunk c (take CHUNK_SIZE (drop i ts)) s")
    show ?thesis
    proof (cases r)
      case (Inl err)
      from "1.IH"(1)[OF True refl e[symmetric] Inl] True e Inl
      show ?thesis by (simp add: chunkLoop.simps[of _ _ i] slices.simps[of _ i] Let_def)
    next
      case (Inr u)
      from "1.IH"(2)[OF True refl e[symmetric] Inr] True e Inr
      show ?thesis by (simp add: chunkLoop.simps[of _ _ i] slices.simps[of _ i] Let_def)
    qed
  qed
qed

lemma chunk_count_step:
  assumes "i < (n::nat)"
  shows "(n - (i + 50) + 49) div 50 + 1 = (n - i + 49) div 50"
proof (cases "i + 50 \<le> n")
  case True
  then have "n - i + 49 = (n - (i + 50) + 49) + 50" by linarith
  then have "(n - i + 49) div 50 = ((n - (i + 50) + 49) + 50) div 50" by (rule arg_cong)
  also have "\<dots> = (n - (i + 50) + 49) div 50 + 1" by simp
  finally show ?thesis by (rule sym)
next
  case False
  with assms have z: "n - (i + 50) = 0" by linarith
  from assms False have "50 \<le> n - i + 49" "n - i + 49 < 100" by linarith+
  then have "(n - i + 49) div 50 = 1" by linarith
  with z show ?thesis by simp
qed

lemma slices_length:
  "length (slices xs i) = (length xs - i + (CHUNK_SIZE - 1)) div CHUNK_SIZE"
proof (induction xs i rule: slices.induct)
  case (1 xs i)
  show ?case
  proof (cases "i < length xs")
    case False
    then show ?thesis by (simp add: slices.simps[of _ i] CHUNK_SIZE_def)
  next
    case True
    have "length (slices xs i) = length (slices xs (i + CHUNK_SIZE)) + 1"
      using True by (simp add: slices.simps[of _ i])
    also have "\<dots> = (length xs - (i + 50) + 49) div 50 + 1"
      using "1.IH"[OF True] by (simp add: CHUNK_SIZE_def)
    also have "\<dots> = (length xs - i + 49) div 50"
      using True by (rule chunk_count_step)
    finally show ?thesis by (simp add: CHUNK_SIZE_def)
  qed
qed

lemma slices_concat: "concat (slices xs i) = drop i xs"
proof (induction xs i rule: slices.induct)
  case (1 xs i)
  show ?case
  proof (cases "i < length xs")
    case False
    then show ?thesis by (simp add: slices.simps[of _ i])
  next
    case True
    have "take CHUNK_SIZE (drop i xs) @ drop (i + CHUNK_SIZE) xs = drop i xs"
      by (metis add.commute append_take_drop_id drop_drop)
    with "1.IH"[OF True] True show ?thesis
      by (simp add: slices.simps[of _ i])
  qed
qed

lemma slices_120:
  assumes "length xs = 120"
  shows "map length (slices xs 0) = [50, 50, 20]"
proof -
  have 3: "slices xs 150 = []" using assms by (simp add: slices.simps[of _ 150])
  have 2: "slices xs 100 = [take 50 (drop 100 xs)]"
    using assms 3 by (simp add: slices.simps[of _ 100] CHUNK_SIZE_def)
  have 1: "slices xs 50 = [take 50 (drop 50 xs), take 50 (drop 100 xs)]"
    using assms 2 by (simp add: slices.simps[of _ 50] CHUNK_SIZE_def)
  have 0: "slices xs 0 = [take 50 xs, take 50 (drop 50 xs), take 50 (drop 100 xs)]"
    using assms 1 by (simp add: slices.simps[of _ 0] CHUNK_SIZE_def)
  show ?thesis using assms by (simp add: 0)
qed

text \<open>A chunk whose enqueue throws synchronously is counted as failed and the loop goes on
  with the next slice.\<close>

lemma chunkStep_throw:
  "enqueueChunk c chunk s = (Inl err, s') \<Longrightarrow>
   chunkStep c (sc, fc, s) chunk = (sc, fc + length chunk, s')"
  by simp

text \<open>With an \<^verbatim>\<open>async\<close> \<^verbatim>\<open>add\<close> every task is counted as processed, whatever becomes of
  the promises.\<close>

lemma handleOverdueTasks_async:
  assumes "async_add c" and "findOverdueTasks c WhereAny s = (Inr tasks, s1)" and "tasks \<noteq> []"
  shows "\<exists>s2. handleOverdueTasks c j s =
            (Inr \<lparr>success = True, error = None, detail = None, res_taskId = None,
                  newStatus = None, processed = Some (length tasks), failed = Some 0,
                  message = Some ''Overdue tasks have been queued for processing''\<rparr>, s2)
          \<and> calls s2 = calls s1 @ map childJob tasks"
proof -
  from chunkLoop_async[OF assms(1), of tasks 0 0 0 s1]
  obtain s2 where "chunkLoop c tasks 0 0 0 s1 = (length tasks, 0, s2)"
    and "calls s2 = calls s1 @ map childJob tasks" by auto
  then show ?thesis using assms(2,3) by (simp add: handleOverdueTasks_def)
qed

lemma handleOverdueTasks_calls:
  "\<exists>es. calls (snd (handleOverdueTasks c j s)) =
     calls s @ Find \<lparr>fo_where = WhereAny, fo_select = [''status'']\<rparr> # es
     \<and> child_jobs_only es"
proof -
  obtain r s1 where f: "findOverdueTasks c WhereAny s = (r, s1)"
    by (cases "findOverdueTasks c WhereAny s")
  have c1: "calls s1 = calls s @ [Find \<lparr>fo_where = WhereAny, fo_select = [''status'']\<rparr>]"
    using findOverdueTasks_calls[of c WhereAny s] f by simp
  have e: "child_jobs_only []" by (simp add: child_jobs_only_def)
  show ?thesis
  proof (cases r)
    case (Inl err)
    then have "calls (snd (handleOverdueTasks c j s)) = calls s1"
      using f by (simp add: handleOverdueTasks_def)
    then show ?thesis using c1 e by auto
  next
    case (Inr tasks)
    show ?thesis
    proof (cases "tasks = []")
      case True
      then have "calls (snd (handleOverdueTasks c j s)) = calls s1"
        using f Inr by (simp add: handleOverdueTasks_def)
      then show ?thesis using c1 e by auto
    next
      case False
      from chunkLoop_calls[of c tasks 0 0 0 s1] obtain es where
        es: "calls (snd (snd (chunkLoop c tasks 0 0 0 s1))) = calls s1 @ es"
            "child_jobs_only es"
        by blast
      have "snd (handleOverdueTasks c j s) = snd (snd (chunkLoop c tasks 0 0 0 s1))"
        using f Inr False by (auto simp: handleOverdueTasks_def split: prod.splits)
      then show ?thesis using es c1 by auto
    qed
  qed
qed

subsection \<open>The scanner\<close>

lemma enqueueAll_async:
  assumes "async_add c"
  shows "\<exists>rs s'. enqueueAll c ts s = (Inr rs, s') \<and> length rs = length ts
           \<and> calls s' = calls s @ map notificationJob ts"
proof (induction ts arbitrary: s)
  case Nil
  show ?case by simp
next
  case (Cons t ts)
  from taskQueue_add_async[OF assms]
  obtain p s1 where
    a: "taskQueue_add c ''overdue-tasks-notification''
          \<lparr>taskId = task_id t, status = JUndefined\<rparr> None s = (Returns p, s1)"
    and c1: "calls s1 = calls s @ [notificationJob t]"
    unfolding notificationJob_def by blast
  from Cons.IH[of s1] obtain rs s2 where b: "enqueueAll c ts s1 = (Inr rs, s2)"
    and l: "length rs = length ts"
    and c2: "calls s2 = calls s1 @ map notificationJob ts" by blast
  show ?case using a b c1 c2 l by simp
qed

lemma enqueueAll_calls:
  "\<exists>k. calls (snd (enqueueAll c ts s)) = calls s @ map notificationJob (take k ts)"
proof (induction ts arbitrary: s)
  case Nil
  show ?case by simp
next
  case (Cons t ts)
  obtain r s1 where
    a: "taskQueue_add c ''overdue-tasks-notification''
          \<lparr>taskId = task_id t, status = JUndefined\<rparr> None s = (r, s1)"
    by (cases "taskQueue_add c ''overdue-tasks-notification''
                 \<lparr>taskId = task_id t, status = JUndefined\<rparr> None s")
  have c1: "calls s1 = calls s @ [notificationJob t]"
    using taskQueue_add_calls[of c "''overdue-tasks-notification''"
            "\<lparr>taskId = task_id t, status = JUndefined\<rparr>" None s] a
    by (simp add: notificationJob_def)
  show ?case
  proof (cases r)
    case (Throws e)
    then have "calls (snd (enqueueAll c (t # ts) s)) =
                 calls s @ map notificationJob (take 1 (t # ts))"
      using a c1 by simp
    then show ?thesis by blast
  next
    case (Returns p)
    from Cons.IH[of s1] obtain k where
      "calls (snd (enqueueAll c ts s1)) = calls s1 @ map notificationJob (take k ts)"
      by blast
    then have "calls (snd (enqueueAll c (t # ts) s)) =
                 calls s @ map notificationJob (take (Suc k) (t # ts))"
      using a c1 Returns by (auto split: prod.splits sum.splits)
    then show ?thesis by blast
  qed
qed

lemma tally_counts:
  "tally rs sc fc = (sc + length (filter (\<lambda>r. r = Fulfilled) rs),
                     fc + length (filter (\<lambda>r. r \<noteq> Fulfilled) rs))"
  by (induction rs sc fc rule: tally.induct) auto

lemma checkOverdueTasks_calls:
  "\<exists>ts. calls (snd (checkOverdueTasks c now s)) =
     calls s @ Find \<lparr>fo_where = WhereDueBefore now PENDING, fo_select = [''status'']\<rparr>
              # map notificationJob ts"
proof -
  obtain r s1 where f: "findOverdueTasks c (WhereDueBefore now PENDING) s = (r, s1)"
    by (cases "findOverdueTasks c (WhereDueBefore now PENDING) s")
  have c1: "calls s1 =
      calls s @ [Find \<lparr>fo_where = WhereDueBefore now PENDING, fo_select = [''status'']\<rparr>]"
    using findOverdueTasks_calls[of c "WhereDueBefore now PENDING" s] f by simp
  have "\<exists>ts. calls (snd (checkOverdueTasks c now s)) = calls s1 @ map notificationJob ts"
  proof (cases r)
    case (Inl err)
    then have "calls (snd (checkOverdueTasks c now s)) = calls s1 @ map notificationJob []"
      using f by (simp add: checkOverdueTasks_def checkOverdueTasks_try_def)
    then show ?thesis by blast
  next
    case (Inr tasks)
    show ?thesis
    proof (cases "tasks = []")
      case True
      then have "calls (snd (checkOverdueTasks c now s)) = calls s1 @ map notificationJob []"
        using f Inr by (simp add: checkOverdueTasks_def checkOverdueTasks_try_def)
      then show ?thesis by blast
    next
      case False
      from enqueueAll_calls[of c tasks s1] obtain k where
        k: "calls (snd (enqueueAll c tasks s1)) =
              calls s1 @ map notificationJob (take k tasks)"
        by blast
      have "snd (checkOverdueTasks c now s) = snd (enqueueAll c tasks s1)"
        using f Inr False
        by (auto simp: checkOverdueTasks_def checkOverdueTasks_try_def
                 split: prod.splits sum.splits)
      then show ?thesis using k by auto
    qed
  qed
  then show ?thesis using c1 by auto
qed

subsection \<open>Runs of the scripted collaborator\<close>

lemma calls_finished: "calls (finished es) = es"
  by (simp add: finished_def)

lemma async_add_scripted: "async_add scripted"
  by (simp add: async_add_def scripted_def split: list.splits)

lemma findOverdueTasks_scripted:
  "findOverdueTasks scripted wh
     (start \<lparr>find_results = r # rs, update_results = us, add_results = as\<rparr>) =
   (case r of Inl err \<Rightarrow> Inl err | Inr ts \<Rightarrow> Inr (status_only ts),
    \<lparr>world = \<lparr>find_results = rs, update_results = us, add_results = as\<rparr>,
     calls = [Find \<lparr>fo_where = wh, fo_select = [''status'']\<rparr>]\<rparr>)"
  by (simp add: findOverdueTasks_def tasksRepository_find_def status_only_def start_def
      scripted_def split: sum.splits)

lemma status_only_two:
  "status_only two_tasks =
     [\<lparr>task_id = JUndefined, task_status = JStr ''PENDING''\<rparr>,
      \<lparr>task_id = JUndefined, task_status = JStr ''IN_PROGRESS''\<rparr>]"
  by (simp add: status_only_def two_tasks_def select_columns_def)

lemma status_only_three:
  "status_only three_tasks =
     [\<lparr>task_id = JUndefined, task_status = JStr ''PENDING''\<rparr>,
      \<lparr>task_id = JUndefined, task_status = JStr ''PENDING''\<rparr>,
      \<lparr>task_id = JUndefined, task_status = JStr ''PENDING''\<rparr>]"
  by (simp add: status_only_def three_tasks_def select_columns_def)


lemma taskQueue_add_scripted:
  "taskQueue_add scripted nm p ops
     \<lparr>world = \<lparr>find_results = fs, update_results = us, add_results = r # rs\<rparr>, calls = cs\<rparr> =
   (Returns r,
    \<lparr>world = \<lparr>find_results = fs, update_results = us, add_results = rs\<rparr>,
     calls = cs @ [Add nm p ops]\<rparr>)"
  by (simp add: taskQueue_add_def scripted_def)

lemma taskQueue_add_scripted_empty:
  "taskQueue_add scripted nm p ops
     \<lparr>world = \<lparr>find_results = fs, update_results = us, add_results = []\<rparr>, calls = cs\<rparr> =
   (Returns Fulfilled,
    \<lparr>world = \<lparr>find_results = fs, update_results = us, add_results = []\<rparr>,
     calls = cs @ [Add nm p ops]\<rparr>)"
  by (simp add: taskQueue_add_def scripted_def)

lemma dispatch_query_down:
  "dispatch scripted (notification_job made mx) query_down =
     (Inl (JErr ''db down''),
      finished [Find \<lparr>fo_where = WhereAny, fo_select = [''status'']\<rparr>])"
  by (simp add: dispatch_def notification_job_def query_down_def finished_def
      handleOverdueTasks_def findOverdueTasks_scripted)

lemma dispatch_default_query_down:
  "dispatch scripted default_notification_job query_down =
     (Inl (JErr ''db down''),
      finished [Find \<lparr>fo_where = WhereAny, fo_select = [''status'']\<rparr>])"
  by (simp add: dispatch_def default_notification_job_def query_down_def finished_def
      handleOverdueTasks_def findOverdueTasks_scripted)

lemma find_two_overdue:
  "findOverdueTasks scripted wh two_overdue =
     (Inr (status_only two_tasks),
      finished [Find \<lparr>fo_where = wh, fo_select = [''status'']\<rparr>])"
  by (simp add: two_overdue_def finished_def findOverdueTasks_scripted)

lemma find_three_overdue:
  "findOverdueTasks scripted wh three_overdue_one_rejected =
     (Inr (status_only three_tasks),
      \<lparr>world = \<lparr>find_results = [], update_results = [],
                 add_results = [Fulfilled, Rejected (JErr ''redis down''), Fulfilled]\<rparr>,
       calls = [Find \<lparr>fo_where = wh, fo_select = [''status'']\<rparr>]\<rparr>)"
  by (simp add: three_overdue_one_rejected_def findOverdueTasks_scripted)

lemma enqueueAll_three:
  "enqueueAll scripted (status_only three_tasks)
      \<lparr>world = \<lparr>find_results = [], update_results = [],
                 add_results = [Fulfilled, Rejected (JErr ''redis down''), Fulfilled]\<rparr>,
       calls = cs\<rparr> =
   (Inr [Fulfilled, Rejected (JErr ''redis down''), Fulfilled],
    finished (cs @ [Add ''overdue-tasks-notification''
                      \<lparr>taskId = JUndefined, status = JUndefined\<rparr> None,
                    Add ''overdue-tasks-notification''
                      \<lparr>taskId = JUndefined, status = JUndefined\<rparr> None,
                    Add ''overdue-tasks-notification''
                      \<lparr>taskId = JUndefined, status = JUndefined\<rparr> None]))"
  by (simp add: status_only_three finished_def taskQueue_add_scripted)

lemma enqueueAll_two:
  "enqueueAll scripted (status_only two_tasks) (finished cs) =
   (Inr [Fulfilled, Fulfilled],
    finished (cs @ [Add ''overdue-tasks-notification''
                      \<lparr>taskId = JUndefined, status = JUndefined\<rparr> None,
                    Add ''overdue-tasks-notification''
                      \<lparr>taskId = JUndefined, status = JUndefined\<rparr> None]))"
  by (simp add: status_only_two finished_def taskQueue_add_scripted_empty)

lemma find_query_down:
  "findOverdueTasks scripted wh query_down =
     (Inl (JErr ''db down''), finished [Find \<lparr>fo_where = wh, fo_select = [''status'']\<rparr>])"
  by (simp add: query_down_def finished_def findOverdueTasks_scripted)

lemma status_job_data:
  "data (status_job tid st) = Some \<lparr>taskId = tid, status = st\<rparr>"
  "name (status_job tid st) = ''task-status-update''"
  by (simp_all add: status_job_def)



section \<open>The dispatcher\<close>

text \<open>
  Claim C1: when the handler of a job raises, \<^verbatim>\<open>process\<close> rethrows the error if the attempt
  count of the job is strictly less than its max attempts, and if the attempt count equals
  max attempts it catches the error and returns \<^verbatim>\<open>{ success: false, error }\<close> without
  rethrowing. The attempt count is the one that the store has incremented on dequeue: the
  attempts made before, which \<^verbatim>\<open>attemptsMade\<close> holds, and the attempt in progress.
\<close>

theorem process_retry_decision:
  assumes "dispatch c j s = (Inl err, s')"
  shows "(attemptCount j < job_maxAttempts j \<longrightarrow> process c j s = (Inl err, s')) \<and>
         (attemptCount j = job_maxAttempts j \<longrightarrow>
            process c j s =
              (Inr (failure (if truthy err then err else JStr ''Job failed permanently'')), s'))"
  using assms by (simp add: process_def attemptCount_def)

theorem process_retry_decision_witness:
  "dispatch scripted (notification_job 0 3) query_down =
     (Inl (JErr ''db down''), finished [Find \<lparr>fo_where = WhereAny, fo_select = [''status'']\<rparr>])
   \<and> attemptCount (notification_job 0 3) < job_maxAttempts (notification_job 0 3)
   \<and> process scripted (notification_job 0 3) query_down =
     (Inl (JErr ''db down''), finished [Find \<lparr>fo_where = WhereAny, fo_select = [''status'']\<rparr>])
   \<and> dispatch scripted (notification_job 2 3) query_down =
     (Inl (JErr ''db down''), finished [Find \<lparr>fo_where = WhereAny, fo_select = [''status'']\<rparr>])
   \<and> attemptCount (notification_job 2 3) = job_maxAttempts (notification_job 2 3)
   \<and> process scripted (notification_job 2 3) query_down =
     (Inr (failure (JErr ''db down'')),
      finished [Find \<lparr>fo_where = WhereAny, fo_select = [''status'']\<rparr>])"
proof -
  have a: "attemptCount (notification_job 0 3) = 1" "job_maxAttempts (notification_job 0 3) = 3"
          "attemptCount (notification_job 2 3) = 3" "job_maxAttempts (notification_job 2 3) = 3"
    by (simp_all add: attemptCount_def job_attempts_def job_maxAttempts_def notification_job_def)
  show ?thesis
    using process_retry_decision[OF dispatch_query_down[of 0 3]]
          process_retry_decision[OF dispatch_query_down[of 2 3]]
    by (simp add: dispatch_query_down a)
qed

text \<open>
  Claim C2: a job whose name is neither \<^verbatim>\<open>task-status-update\<close> nor
  \<^verbatim>\<open>overdue-tasks-notification\<close> makes \<^verbatim>\<open>process\<close> return
  \<^verbatim>\<open>{ success: false, error: 'Unknown job type' }\<close>, whatever its attempt count and
  options; nothing is rethrown, so the store has nothing to retry, and no collaborator is
  called.
\<close>

theorem process_unknown_job_type:
  assumes "name j \<noteq> ''task-status-update''" and "name j \<noteq> ''overdue-tasks-notification''"
  shows "process c j s = (Inr (failure (JStr ''Unknown job type'')), s)"
  using assms by (simp add: process_def dispatch_def)

theorem process_unknown_job_type_witness:
  "name unknown_job \<noteq> ''task-status-update'' \<and>
   name unknown_job \<noteq> ''overdue-tasks-notification'' \<and>
   process scripted unknown_job query_down =
     (Inr (failure (JStr ''Unknown job type'')), query_down)"
  using process_unknown_job_type[of unknown_job scripted query_down]
  by (simp add: unknown_job_def)

text \<open>
  Claim C9: for a job without an \<^verbatim>\<open>attempts\<close> option the error path of \<^verbatim>\<open>process\<close> takes
  max attempts to be 1, so \<^verbatim>\<open>process\<close> always returns and a handler error yields the
  structured failure; and every job that the scanner or the overdue-notification handler
  enqueues is added without options.
\<close>

theorem process_without_attempts_option:
  "((case opts j of None \<Rightarrow> True | Some ops \<Rightarrow> attempts ops = None) \<longrightarrow>
      job_maxAttempts j = 1 \<and>
      (\<exists>r s'. process c j s = (Inr r, s')) \<and>
      (\<forall>err s'. dispatch c j s = (Inl err, s') \<longrightarrow>
         process c j s =
           (Inr (failure (if truthy err then err else JStr ''Job failed permanently'')), s')))
   \<and> (\<forall>nm p ops. Add nm p ops \<in> set (drop (length (calls s))
                                             (calls (snd (checkOverdueTasks c now s))))
         \<longrightarrow> ops = None)
   \<and> (\<forall>nm p ops. Add nm p ops \<in> set (drop (length (calls s))
                                             (calls (snd (handleOverdueTasks c j s))))
         \<longrightarrow> ops = None)"
proof (intro conjI impI allI)
  assume a: "case opts j of None \<Rightarrow> True | Some ops \<Rightarrow> attempts ops = None"
  then show m: "job_maxAttempts j = 1"
    by (simp add: job_maxAttempts_def split: option.splits)
  have n: "\<not> job_attempts j < job_maxAttempts j - 1"
    using m by (simp add: job_attempts_def split: option.splits)
  show "\<exists>r s'. process c j s = (Inr r, s')"
    using n by (simp add: process_def split: prod.splits sum.splits)
  fix err s' assume "dispatch c j s = (Inl err, s')"
  then show "process c j s =
           (Inr (failure (if truthy err then err else JStr ''Job failed permanently'')), s')"
    using n by (simp add: process_def)
next
  fix nm p ops
  assume "Add nm p ops \<in> set (drop (length (calls s)) (calls (snd (checkOverdueTasks c now s))))"
  then show "ops = None"
    using checkOverdueTasks_calls[of c now s] by (auto simp: notificationJob_def)
next
  fix nm p ops
  assume "Add nm p ops \<in> set (drop (length (calls s)) (calls (snd (handleOverdueTasks c j s))))"
  then show "ops = None"
    using handleOverdueTasks_calls[of c j s] by (auto simp: child_jobs_only_def childJob_def)
qed

theorem process_without_attempts_option_witness:
  "(case opts default_notification_job of None \<Rightarrow> True | Some ops \<Rightarrow> attempts ops = None) \<and>
   dispatch scripted default_notification_job query_down =
     (Inl (JErr ''db down''), finished [Find \<lparr>fo_where = WhereAny, fo_select = [''status'']\<rparr>]) \<and>
   process scripted default_notification_job query_down =
     (Inr (failure (JErr ''db down'')),
      finished [Find \<lparr>fo_where = WhereAny, fo_select = [''status'']\<rparr>]) \<and>
   Add ''task-status-update'' \<lparr>taskId = JUndefined, status = JStr ''PENDING''\<rparr> None
     \<in> set (drop (length (calls two_overdue))
               (calls (snd (handleOverdueTasks scripted default_notification_job two_overdue)))) \<and>
   Add ''overdue-tasks-notification'' \<lparr>taskId = JUndefined, status = JUndefined\<rparr> None
     \<in> set (drop (length (calls two_overdue))
               (calls (snd (checkOverdueTasks scripted 1000 two_overdue))))"
proof -
  have o: "case opts default_notification_job of None \<Rightarrow> True
           | Some ops \<Rightarrow> attempts ops = None"
    by (simp add: default_notification_job_def)
  have ne: "status_only two_tasks \<noteq> []" by (simp add: status_only_two)
  have h: "calls (snd (handleOverdueTasks scripted default_notification_job two_overdue)) =
        [Find \<lparr>fo_where = WhereAny, fo_select = [''status'']\<rparr>,
         Add ''task-status-update'' \<lparr>taskId = JUndefined, status = JStr ''PENDING''\<rparr> None,
         Add ''task-status-update'' \<lparr>taskId = JUndefined, status = JStr ''IN_PROGRESS''\<rparr> None]"
    using handleOverdueTasks_async[OF async_add_scripted find_two_overdue ne,
            of default_notification_job]
    by (auto simp: status_only_two childJob_def finished_def)
  have k: "calls (snd (checkOverdueTasks scripted 1000 two_overdue)) =
        [Find \<lparr>fo_where = WhereDueBefore 1000 PENDING, fo_select = [''status'']\<rparr>,
         Add ''overdue-tasks-notification'' \<lparr>taskId = JUndefined, status = JUndefined\<rparr> None,
         Add ''overdue-tasks-notification'' \<lparr>taskId = JUndefined, status = JUndefined\<rparr> None]"
    using ne
    by (simp add: checkOverdueTasks_def checkOverdueTasks_try_def find_two_overdue
        enqueueAll_two calls_finished)
  have z: "calls two_overdue = []" by (simp add: two_overdue_def start_def)
  show ?thesis
    using process_without_attempts_option[of default_notification_job scripted query_down 1000] o
    by (simp add: dispatch_default_query_down h k z)
qed

section \<open>The status-update handler\<close>








section \<open>The overdue-notification handler\<close>

text \<open>
  Claim C3, at one overdue task whose enqueue is rejected: the promise that \<^verbatim>\<open>add\<close> returns
  is dropped, the \<^verbatim>\<open>catch\<close> block of the chunk never sees the rejection, and the handler
  reports the task as processed and none as failed.
\<close>

theorem handleOverdueTasks_rejected_enqueue_tally:
  "handleOverdueTasks scripted (notification_job 0 1) one_overdue_rejecting =
     (Inr \<lparr>success = True, error = None, detail = None, res_taskId = None, newStatus = None,
           processed = Some 1, failed = Some 0,
           message = Some ''Overdue tasks have been queued for processing''\<rparr>,
      finished [Find \<lparr>fo_where = WhereAny, fo_select = [''status'']\<rparr>,
                Add ''task-status-update''
                  \<lparr>taskId = JUndefined, status = JStr ''PENDING''\<rparr> None])"
  by (simp add: handleOverdueTasks_def one_overdue_rejecting_def findOverdueTasks_scripted
      status_only_def select_columns_def chunkLoop.simps[of _ _ 0] chunkLoop_done
      taskQueue_add_scripted CHUNK_SIZE_def finished_def)

text \<open>
  Claim C6, at two overdue tasks with the ids \<^verbatim>\<open>t1\<close> and \<^verbatim>\<open>t2\<close>: the handler enqueues one
  \<^verbatim>\<open>task-status-update\<close> job per task with the status of the task, but the query loads
  only the \<^verbatim>\<open>status\<close> column, so the \<^verbatim>\<open>taskId\<close> of every payload is \<^verbatim>\<open>undefined\<close> and not the id
  of the task; such a child job is then answered with \<^verbatim>\<open>Missing required data\<close>.
\<close>

theorem handleOverdueTasks_child_jobs_without_id:
  "handleOverdueTasks scripted (notification_job 0 1) two_overdue =
     (Inr \<lparr>success = True, error = None, detail = None, res_taskId = None, newStatus = None,
           processed = Some 2, failed = Some 0,
           message = Some ''Overdue tasks have been queued for processing''\<rparr>,
      finished [Find \<lparr>fo_where = WhereAny, fo_select = [''status'']\<rparr>,
                Add ''task-status-update''
                  \<lparr>taskId = JUndefined, status = JStr ''PENDING''\<rparr> None,
                Add ''task-status-update''
                  \<lparr>taskId = JUndefined, status = JStr ''IN_PROGRESS''\<rparr> None])
   \<and> process scripted (status_job JUndefined (JStr ''PENDING'')) (finished []) =
       (Inr (failure (JStr ''Missing required data'')), finished [])"
proof
  show "handleOverdueTasks scripted (notification_job 0 1) two_overdue =
     (Inr \<lparr>success = True, error = None, detail = None, res_taskId = None, newStatus = None,
           processed = Some 2, failed = Some 0,
           message = Some ''Overdue tasks have been queued for processing''\<rparr>,
      finished [Find \<lparr>fo_where = WhereAny, fo_select = [''status'']\<rparr>,
                Add ''task-status-update''
                  \<lparr>taskId = JUndefined, status = JStr ''PENDING''\<rparr> None,
                Add ''task-status-update''
                  \<lparr>taskId = JUndefined, status = JStr ''IN_PROGRESS''\<rparr> None])"
    by (simp add: handleOverdueTasks_def find_two_overdue status_only_two
        chunkLoop.simps[of _ _ 0] chunkLoop_done taskQueue_add_scripted_empty CHUNK_SIZE_def
        finished_def)
  show "process scripted (status_job JUndefined (JStr ''PENDING'')) (finished []) =
       (Inr (failure (JStr ''Missing required data'')), finished [])"
    by (simp add: process_def dispatch_def handleStatusUpdate_def status_job_data)
qed

section \<open>The scanner\<close>

text \<open>
  Claim C4: when the overdue query returns a non-empty list and every call of \<^verbatim>\<open>add\<close>
  returns a promise, \<^verbatim>\<open>add\<close> is called once for every task, whether or not earlier promises
  are rejected, and the cycle returns \<^verbatim>\<open>success: true\<close> with the number of fulfilled
  promises as \<^verbatim>\<open>successCount\<close> and the number of rejected ones as \<^verbatim>\<open>failCount\<close>.
\<close>

theorem checkOverdueTasks_settle_all:
  assumes "async_add c"
    and "findOverdueTasks c (WhereDueBefore now PENDING) s = (Inr tasks, s1)"
    and "tasks \<noteq> []"
  shows "\<exists>results s2.
           enqueueAll c tasks s1 = (Inr results, s2) \<and> length results = length tasks \<and>
           calls s2 = calls s1 @
             map (\<lambda>task. Add ''overdue-tasks-notification''
                           \<lparr>taskId = task_id task, status = JUndefined\<rparr> None) tasks \<and>
           checkOverdueTasks c now s =
             (Inr \<lparr>resp_status = 200, resp_success = True,
                   resp_data = Counts (length (filter (\<lambda>r. r = Fulfilled) results))
                                      (length (filter (\<lambda>r. r \<noteq> Fulfilled) results)),
                   resp_message = ''Overdue tasks check completed''\<rparr>, s2)"
proof -
  from enqueueAll_async[OF assms(1), of tasks s1]
  obtain rs s2 where e: "enqueueAll c tasks s1 = (Inr rs, s2)"
    and l: "length rs = length tasks"
    and cs: "calls s2 = calls s1 @ map notificationJob tasks" by blast
  have "checkOverdueTasks c now s =
             (Inr \<lparr>resp_status = 200, resp_success = True,
                   resp_data = Counts (length (filter (\<lambda>r. r = Fulfilled) rs))
                                      (length (filter (\<lambda>r. r \<noteq> Fulfilled) rs)),
                   resp_message = ''Overdue tasks check completed''\<rparr>, s2)"
    using assms(2,3) e
    by (simp add: checkOverdueTasks_def checkOverdueTasks_try_def tally_counts
        formatResponse_def)
  with e l cs show ?thesis unfolding notificationJob_def by blast
qed

theorem checkOverdueTasks_settle_all_witness:
  "async_add scripted \<and> status_only three_tasks \<noteq> [] \<and>
   (\<exists>s2. checkOverdueTasks scripted 1000 three_overdue_one_rejected =
      (Inr \<lparr>resp_status = 200, resp_success = True, resp_data = Counts 2 1,
            resp_message = ''Overdue tasks check completed''\<rparr>, s2))"
proof -
  have ne: "status_only three_tasks \<noteq> []" by (simp add: status_only_three)
  from checkOverdueTasks_settle_all[OF async_add_scripted find_three_overdue ne, of 1000]
  show ?thesis using async_add_scripted ne by (auto simp: enqueueAll_three)
qed

text \<open>
  Claim C7: a cycle of the scanner always returns a response and never throws; an error
  raised inside its \<^verbatim>\<open>try\<close> block becomes a response with \<^verbatim>\<open>success: false\<close>; and when the
  overdue query throws, the query is the only call made in the cycle, so nothing is enqueued.
\<close>

theorem checkOverdueTasks_never_throws:
  "(\<exists>r s'. checkOverdueTasks c now s = (Inr r, s')) \<and>
   (\<forall>err s'. checkOverdueTasks_try c now s = (Inl err, s') \<longrightarrow>
      checkOverdueTasks c now s =
        (Inr \<lparr>resp_status = 500, resp_success = False, resp_data = EmptyList,
              resp_message = ''Error checking overdue tasks''\<rparr>, s')) \<and>
   (\<forall>err s1. findOverdueTasks c (WhereDueBefore now PENDING) s = (Inl err, s1) \<longrightarrow>
      checkOverdueTasks c now s =
        (Inr \<lparr>resp_status = 500, resp_success = False, resp_data = EmptyList,
              resp_message = ''Error checking overdue tasks''\<rparr>, s1) \<and>
      calls s1 = calls s @ [Find \<lparr>fo_where = WhereDueBefore now PENDING,
                                  fo_select = [''status'']\<rparr>])"
proof (intro conjI allI impI)
  show "\<exists>r s'. checkOverdueTasks c now s = (Inr r, s')"
    by (simp add: checkOverdueTasks_def split: prod.splits sum.splits)
next
  fix err s' assume "checkOverdueTasks_try c now s = (Inl err, s')"
  then show "checkOverdueTasks c now s =
        (Inr \<lparr>resp_status = 500, resp_success = False, resp_data = EmptyList,
              resp_message = ''Error checking overdue tasks''\<rparr>, s')"
    by (simp add: checkOverdueTasks_def formatResponse_def)
next
  fix err s1 assume f: "findOverdueTasks c (WhereDueBefore now PENDING) s = (Inl err, s1)"
  then show "checkOverdueTasks c now s =
        (Inr \<lparr>resp_status = 500, resp_success = False, resp_data = EmptyList,
              resp_message = ''Error checking overdue tasks''\<rparr>, s1)"
    by (simp add: checkOverdueTasks_def checkOverdueTasks_try_def formatResponse_def)
  show "calls s1 = calls s @ [Find \<lparr>fo_where = WhereDueBefore now PENDING,
                                  fo_select = [''status'']\<rparr>]"
    using findOverdueTasks_calls[of c "WhereDueBefore now PENDING" s] f by simp
qed

theorem checkOverdueTasks_never_throws_witness:
  "findOverdueTasks scripted (WhereDueBefore 1000 PENDING) query_down =
     (Inl (JErr ''db down''),
      finished [Find \<lparr>fo_where = WhereDueBefore 1000 PENDING, fo_select = [''status'']\<rparr>]) \<and>
   checkOverdueTasks scripted 1000 query_down =
     (Inr \<lparr>resp_status = 500, resp_success = False, resp_data = EmptyList,
           resp_message = ''Error checking overdue tasks''\<rparr>,
      finished [Find \<lparr>fo_where = WhereDueBefore 1000 PENDING, fo_select = [''status'']\<rparr>])"
  using checkOverdueTasks_never_throws[of scripted 1000 query_down]
  by (simp add: find_query_down)

end
